theory Spec2Isabelle
  imports Main "HOL-Library.Word"
begin

section \<open>Common types and the standard streams\<close>

text \<open>
  The program is \<^verbatim>\<open>shadows_of_the_knight_ep_2.cpp\<close>. A C++ \<^verbatim>\<open>int\<close> is a 32-bit
  two's-complement value: a \<open>32 word\<close>, read with \<open>sint\<close> and compared with the signed
  orders \<open>\<le>s\<close> and \<open><s\<close>. \<^verbatim>\<open>String\<close> is \<^verbatim>\<open>std::string\<close>, a \<open>string\<close> here.
\<close>

type_synonym cint = "32 word"

text \<open>
  Every failure of the program is a \<^verbatim>\<open>std::runtime_error\<close> with a message. While it
  propagates it is \<open>Runtime_error\<close>; once it meets a \<^verbatim>\<open>noexcept\<close> boundary, or leaves
  \<^verbatim>\<open>main\<close> uncaught, the run-time calls \<^verbatim>\<open>std::terminate\<close> and the process aborts:
  \<open>Terminate\<close>, keeping the message of the exception that caused it.
\<close>

datatype failure = Runtime_error string | Terminate string

definition noexcept :: "failure + 'a \<Rightarrow> failure + 'a" where
  "noexcept r = (case r of Inl (Runtime_error m) \<Rightarrow> Inl (Terminate m) | _ \<Rightarrow> r)"

text \<open>
  \<^verbatim>\<open>std::istream\<close> is not code of the program, and the program uses nothing of it
  but formatted extraction, \<^verbatim>\<open>input >> v\<close>, at the types \<^verbatim>\<open>int\<close> and \<^verbatim>\<open>String\<close>. An
  input stream is therefore modelled by what it answers: the value \<^verbatim>\<open>v\<close> holds after
  an extraction at either type, and the stream that is left. Every behaviour of a
  stream (end of file, a failed extraction, any text) is one value of this type, so
  a statement about all \<open>istream\<close>s is about all inputs.
\<close>

codatatype istream =
  IStream (extract_int: cint) (after_int: istream)
          (extract_string: string) (after_string: istream)

text \<open>
  A scripted stream, for concrete runs: the integer extractions answer the numbers
  of the first list in order and the string extractions the tokens of the second
  (0 and the empty string once a list is used up).
\<close>

primcorec scripted :: "cint list \<Rightarrow> string list \<Rightarrow> istream" where
  "extract_int (scripted ns ts) = (case ns of [] \<Rightarrow> 0 | n # _ \<Rightarrow> n)"
| "after_int (scripted ns ts) = scripted (tl ns) ts"
| "extract_string (scripted ns ts) = (case ts of [] \<Rightarrow> [] | t # _ \<Rightarrow> t)"
| "after_string (scripted ns ts) = scripted ns (tl ts)"

text \<open>
  \<^verbatim>\<open>std::ostream\<close> is the text written so far. \<^verbatim>\<open>output << n\<close> for an \<^verbatim>\<open>int\<close> appends
  its decimal digits, with a minus sign when negative; \<^verbatim>\<open>std::endl\<close> appends a newline.
\<close>

type_synonym ostream = string

definition digit_char :: "nat \<Rightarrow> char" where
  "digit_char d = ''0123456789'' ! d"

fun dec_digits :: "nat \<Rightarrow> string" where
  "dec_digits n =
     (if n < 10 then [digit_char n] else dec_digits (n div 10) @ [digit_char (n mod 10)])"

declare dec_digits.simps [simp del]

definition put_int :: "cint \<Rightarrow> string" where
  "put_int v =
     (if sint v < 0 then CHR ''-'' # dec_digits (nat (- sint v)) else dec_digits (nat (sint v)))"

definition endl :: string where
  "endl = [CHR 0x0A]"

section \<open>Input utilities\<close>

text \<open>\<^verbatim>\<open>Read<int>\<close>: one extraction, returning the value and the stream that is left.\<close>

definition Read_int :: "istream \<Rightarrow> cint \<times> istream" where
  "Read_int input = (extract_int input, after_int input)"

text \<open>
  \<^verbatim>\<open>CheckArgument\<close>, used at \<^verbatim>\<open>int\<close> only: the argument when the predicate holds,
  otherwise a \<^verbatim>\<open>std::runtime_error\<close> whose text is the message (when not empty)
  followed by a colon, then the argument between single quotes.
\<close>

definition CheckArgument :: "cint \<Rightarrow> (cint \<Rightarrow> bool) \<Rightarrow> string \<Rightarrow> failure + cint" where
  "CheckArgument argument pred message =
     (if \<not> pred argument then
        Inl (Runtime_error
          ((if message \<noteq> [] then message @ '': '' else []) @
           ''argument '' @ [CHR 0x27] @ put_int argument @ [CHR 0x27] @ '' is incorrect''))
      else Inr argument)"

section \<open>Math utilities\<close>

record Point =
  X :: cint
  Y :: cint

section \<open>Game entities\<close>

record Building =
  Width :: cint
  Height :: cint

definition MIN_WIDTH :: cint where "MIN_WIDTH = 1"
definition MAX_WIDTH :: cint where "MAX_WIDTH = 10000"
definition MIN_HEIGHT :: cint where "MIN_HEIGHT = 5"
definition MAX_HEIGHT :: cint where "MAX_HEIGHT = 10000"

text \<open>
  The constructor of \<^verbatim>\<open>Building\<close> checks the width, then the height (the members'
  order). It is declared \<^verbatim>\<open>noexcept\<close>, so a failed check ends in \<^verbatim>\<open>std::terminate\<close>.
\<close>

definition Building_ctor :: "cint \<Rightarrow> cint \<Rightarrow> failure + Building" where
  "Building_ctor width height =
     noexcept
       (case CheckArgument width (\<lambda>w. MIN_WIDTH \<le>s w \<and> w \<le>s MAX_WIDTH) ''Building width'' of
          Inl e \<Rightarrow> Inl e
        | Inr w \<Rightarrow>
            (case CheckArgument height (\<lambda>h. MIN_HEIGHT \<le>s h \<and> h \<le>s MAX_HEIGHT)
                    ''Building height'' of
               Inl e \<Rightarrow> Inl e
             | Inr h \<Rightarrow> Inr \<lparr>Width = w, Height = h\<rparr>))"

definition GetWidth :: "Building \<Rightarrow> cint" where
  "GetWidth b = Width b"

definition GetHeight :: "Building \<Rightarrow> cint" where
  "GetHeight b = Height b"

record Batman =
  Position :: Point

text \<open>
  The constructor of \<^verbatim>\<open>Batman\<close> checks x, then y (a braced initialiser list is
  evaluated left to right), each against the constants of \<^verbatim>\<open>Building\<close>; it is
  \<^verbatim>\<open>noexcept\<close> too.
\<close>

definition Batman_ctor :: "cint \<Rightarrow> cint \<Rightarrow> failure + Batman" where
  "Batman_ctor x y =
     noexcept
       (case CheckArgument x (\<lambda>x0. 0 \<le>s x0 \<and> x0 <s MAX_WIDTH) ''Batman x0'' of
          Inl e \<Rightarrow> Inl e
        | Inr px \<Rightarrow>
            (case CheckArgument y (\<lambda>y0. 0 \<le>s y0 \<and> y0 <s MAX_HEIGHT) ''Batman y0'' of
               Inl e \<Rightarrow> Inl e
             | Inr py \<Rightarrow> Inr \<lparr>Position = \<lparr>X = px, Y = py\<rparr>\<rparr>))"

definition GetPosition :: "Batman \<Rightarrow> Point" where
  "GetPosition b = Position b"

section \<open>Strategy\<close>

text \<open>
  \<^verbatim>\<open>IStrategy\<close> has one implementation, \<^verbatim>\<open>SimpleStrategy\<close>, a class with no data
  member. \<^verbatim>\<open>MakeDecision\<close> is not a \<^verbatim>\<open>const\<close> member function, so the model returns
  the strategy object after the call beside the point.
\<close>

datatype IStrategy = SimpleStrategy

fun MakeDecision :: "IStrategy \<Rightarrow> string \<Rightarrow> Point \<times> IStrategy" where
  "MakeDecision SimpleStrategy bombDirection = (\<lparr>X = 0, Y = 0\<rparr>, SimpleStrategy)"

definition CreateStrategy :: IStrategy where
  "CreateStrategy = SimpleStrategy"

section \<open>The game\<close>

record Game =
  House :: Building
  TurnsLeft :: cint
  Player :: Batman
  Strategy :: IStrategy

definition STOP_BELOW_TURNS :: cint where "STOP_BELOW_TURNS = 1"
definition MIN_INPUT_TURNS :: cint where "MIN_INPUT_TURNS = 2"
definition MAX_INPUT_TURNS :: cint where "MAX_INPUT_TURNS = 100"

definition ReadBuilding :: "istream \<Rightarrow> (failure + Building) \<times> istream" where
  "ReadBuilding input =
     (let (w, in1) = Read_int input;
          (h, in2) = Read_int in1
      in (Building_ctor w h, in2))"

definition ReadTurns :: "istream \<Rightarrow> (failure + cint) \<times> istream" where
  "ReadTurns input =
     (let (turnsLeft, in1) = Read_int input
      in (CheckArgument turnsLeft
            (\<lambda>turns. MIN_INPUT_TURNS \<le>s turns \<and> turns \<le>s MAX_INPUT_TURNS) ''Turns left'',
          in1))"

definition ReadBatman :: "istream \<Rightarrow> (failure + Batman) \<times> istream" where
  "ReadBatman input =
     (let (x, in1) = Read_int input;
          (y, in2) = Read_int in1
      in (Batman_ctor x y, in2))"

text \<open>
  The constructor of \<^verbatim>\<open>Game\<close> initialises the members in their order: the house,
  the turns, the player, the strategy. It is \<^verbatim>\<open>noexcept\<close>: the exception of
  \<^verbatim>\<open>ReadTurns\<close> ends in \<^verbatim>\<open>std::terminate\<close> here.
\<close>

definition Game_ctor :: "istream \<Rightarrow> (failure + Game) \<times> istream" where
  "Game_ctor input =
     (case ReadBuilding input of
        (Inl e, in1) \<Rightarrow> (noexcept (Inl e), in1)
      | (Inr house, in1) \<Rightarrow>
          (case ReadTurns in1 of
             (Inl e, in2) \<Rightarrow> (noexcept (Inl e), in2)
           | (Inr turns, in2) \<Rightarrow>
               (case ReadBatman in2 of
                  (Inl e, in3) \<Rightarrow> (noexcept (Inl e), in3)
                | (Inr player, in3) \<Rightarrow>
                    (Inr \<lparr>House = house, TurnsLeft = turns, Player = player,
                          Strategy = CreateStrategy\<rparr>, in3))))"

definition IsRunning :: "Game \<Rightarrow> bool" where
  "IsRunning g = (STOP_BELOW_TURNS \<le>s TurnsLeft g)"

definition BeforeTurn :: "Game \<Rightarrow> failure + unit" where
  "BeforeTurn g =
     (if \<not> IsRunning g then Inl (Runtime_error ''The game is not running: no turns left'')
      else Inr ())"

text \<open>
  \<^verbatim>\<open>OnTurn\<close> extracts one token, asks the strategy, and writes the point: x, a space,
  y, end of line. The two streams are passed and returned as a pair.
\<close>

definition OnTurn :: "Game \<Rightarrow> istream \<times> ostream \<Rightarrow> Game \<times> (istream \<times> ostream)" where
  "OnTurn g io =
     (let (input, output) = io;
          bombDir = extract_string input;
          in1 = after_string input;
          (jumpTo, strategy) = MakeDecision (Strategy g) bombDir
      in (g\<lparr>Strategy := strategy\<rparr>,
          (in1, output @ put_int (X jumpTo) @ '' '' @ put_int (Y jumpTo) @ endl)))"

definition AfterTurn :: "Game \<Rightarrow> Game" where
  "AfterTurn g = g\<lparr>TurnsLeft := TurnsLeft g - 1\<rparr>"

text \<open>
  \<^verbatim>\<open>NextTurn\<close>: when \<^verbatim>\<open>BeforeTurn\<close> throws, the exception propagates and neither the
  game nor a stream has been touched.
\<close>

definition NextTurn :: "Game \<Rightarrow> istream \<times> ostream \<Rightarrow> (failure + Game) \<times> (istream \<times> ostream)" where
  "NextTurn g io =
     (case BeforeTurn g of
        Inl e \<Rightarrow> (Inl e, io)
      | Inr _ \<Rightarrow> (let (g1, io1) = OnTurn g io in (Inr (AfterTurn g1), io1)))"

text \<open>The loop of \<^verbatim>\<open>main\<close>: \<^verbatim>\<open>while (game.IsRunning()) game.NextTurn(cin, cout)\<close>.\<close>

function game_loop :: "Game \<Rightarrow> istream \<times> ostream \<Rightarrow> (failure + Game) \<times> (istream \<times> ostream)" where
  "game_loop game io =
     (if IsRunning game then
        (case NextTurn game io of
           (Inl e, io1) \<Rightarrow> (Inl e, io1)
         | (Inr game1, io1) \<Rightarrow> game_loop game1 io1)
      else (Inr game, io))"
  by pat_completeness auto

termination
proof (relation "measure (\<lambda>(g, io). nat (sint (TurnsLeft g)))")
  show "wf (measure (\<lambda>(g, io). nat (sint (TurnsLeft g))))"
    by simp
next
  fix game :: Game and io io1 :: "istream \<times> ostream" and r game1
  assume run: "IsRunning game"
    and x: "(r, io1) = NextTurn game io" "r = Inr game1"
  from run have pos: "1 \<le> sint (TurnsLeft game)"
    by (simp add: IsRunning_def STOP_BELOW_TURNS_def word_sle_eq)
  have "sint (TurnsLeft game - 1) = signed_take_bit 31 (sint (TurnsLeft game) - 1)"
    by (simp add: sint_word_ariths)
  also have "\<dots> = sint (TurnsLeft game) - 1"
    using pos sint_lt [of "TurnsLeft game"]
    by (intro signed_take_bit_int_eq_self) simp_all
  finally have dec: "sint (TurnsLeft game - 1) = sint (TurnsLeft game) - 1" .
  from x have "NextTurn game io = (Inr game1, io1)"
    by simp
  with run have "TurnsLeft game1 = TurnsLeft game - 1"
    by (auto simp: NextTurn_def BeforeTurn_def OnTurn_def AfterTurn_def
        split: prod.splits if_splits)
  with dec pos show "((game1, io1), (game, io)) \<in> measure (\<lambda>(g, io). nat (sint (TurnsLeft g)))"
    by simp
qed

text \<open>
  \<^verbatim>\<open>main\<close> starts with nothing written, builds the game from \<^verbatim>\<open>std::cin\<close>, runs the
  loop and returns 0. An exception that leaves \<^verbatim>\<open>main\<close> is not caught by anything:
  \<^verbatim>\<open>std::terminate\<close>.
\<close>

definition main :: "istream \<Rightarrow> (failure + cint) \<times> (istream \<times> ostream)" where
  "main cin =
     (case Game_ctor cin of
        (Inl e, cin1) \<Rightarrow> (Inl e, (cin1, []))
      | (Inr game, cin1) \<Rightarrow>
          (case game_loop game (cin1, []) of
             (Inl e, io) \<Rightarrow> (noexcept (Inl e), io)
           | (Inr _, io) \<Rightarrow> (Inr 0, io)))"

section \<open>Observing a session\<close>

text \<open>
  What the statements below read off a session. The program keeps no search window:
  the only rectangle a \<open>Game\<close> owns is its house, of \<open>GetWidth\<close> by \<open>GetHeight\<close> cells.
\<close>

definition window_area :: "Game \<Rightarrow> int" where
  "window_area g = sint (GetWidth (House g)) * sint (GetHeight (House g))"

text \<open>The text \<^verbatim>\<open>OnTurn\<close> writes for a point, without the end of line.\<close>

definition probe_text :: "Point \<Rightarrow> string" where
  "probe_text p = put_int (X p) @ '' '' @ put_int (Y p)"

text \<open>The lines of an output, split at each newline.\<close>

fun split_lines :: "string \<Rightarrow> string list" where
  "split_lines [] = []"
| "split_lines (c # cs) =
     (if c = CHR 0x0A then [] # split_lines cs
      else (case split_lines cs of [] \<Rightarrow> [[c]] | l # ls \<Rightarrow> (c # l) # ls))"

text \<open>No line follows the first line equal to \<open>t\<close>: the run stopped there.\<close>

fun stops_at :: "string \<Rightarrow> string list \<Rightarrow> bool" where
  "stops_at t [] = True"
| "stops_at t (l # ls) = (if l = t then ls = [] else stops_at t ls)"

text \<open>
  The session of the specification's scenario: width 10, height 5, 20 turns, start (0,0).
\<close>

definition scenario_game :: Game where
  "scenario_game =
     \<lparr>House = \<lparr>Width = 10, Height = 5\<rparr>, TurnsLeft = 20,
      Player = \<lparr>Position = \<lparr>X = 0, Y = 0\<rparr>\<rparr>, Strategy = SimpleStrategy\<rparr>"

section \<open>Facts about the operations\<close>

declare game_loop.simps [simp del]

lemma sint_dec: "1 \<le> sint (t :: cint) \<Longrightarrow> sint (t - 1) = sint t - 1"
proof -
  assume pos: "1 \<le> sint t"
  have "sint (t - 1) = signed_take_bit 31 (sint t - 1)"
    by (simp add: sint_word_ariths)
  also have "\<dots> = sint t - 1"
    using pos sint_lt [of t] by (intro signed_take_bit_int_eq_self) simp_all
  finally show ?thesis .
qed

lemma put_int_0: "put_int 0 = ''0''"
  by (simp add: put_int_def dec_digits.simps digit_char_def)

lemma MakeDecision_origin: "MakeDecision s fb = (\<lparr>X = 0, Y = 0\<rparr>, s)"
  by (cases s) simp

lemma OnTurn_eq:
  "OnTurn g (input, output) = (g, (after_string input, output @ ''0 0'' @ [CHR 0x0A]))"
  by (simp add: OnTurn_def MakeDecision_origin put_int_0 endl_def)

lemma IsRunning_iff: "IsRunning g \<longleftrightarrow> 1 \<le> sint (TurnsLeft g)"
  by (simp add: IsRunning_def STOP_BELOW_TURNS_def word_sle_eq)

lemma NextTurn_running:
  "IsRunning g \<Longrightarrow>
   NextTurn g (input, output) =
     (Inr (g\<lparr>TurnsLeft := TurnsLeft g - 1\<rparr>), (after_string input, output @ ''0 0'' @ [CHR 0x0A]))"
  by (simp add: NextTurn_def BeforeTurn_def OnTurn_eq AfterTurn_def)

lemma NextTurn_stopped:
  "\<not> IsRunning g \<Longrightarrow>
   NextTurn g io = (Inl (Runtime_error ''The game is not running: no turns left''), io)"
  by (simp add: NextTurn_def BeforeTurn_def)

lemma game_loop_run:
  "sint (TurnsLeft g) = int n \<Longrightarrow>
   game_loop g (input, out) =
     (Inr (g\<lparr>TurnsLeft := 0\<rparr>),
      ((after_string ^^ n) input, out @ concat (replicate n (''0 0'' @ [CHR 0x0A]))))"
proof (induction n arbitrary: g input out)
  case 0
  then have "TurnsLeft g = 0"
    by (simp add: signed_eq_0_iff)
  then have "\<not> IsRunning g" "g\<lparr>TurnsLeft := 0\<rparr> = g"
    by (simp_all add: IsRunning_iff)
  then show ?case
    by (simp add: game_loop.simps [of g])
next
  case (Suc n)
  then have run: "IsRunning g"
    by (simp add: IsRunning_iff)
  have "sint (TurnsLeft g - 1) = int n"
    using Suc.prems by (simp add: sint_dec)
  then have "sint (TurnsLeft (g\<lparr>TurnsLeft := TurnsLeft g - 1\<rparr>)) = int n"
    by simp
  from Suc.IH [OF this] run show ?case
    by (simp add: game_loop.simps [of g] NextTurn_running funpow_swap1)
qed

lemma game_loop_negative:
  "sint (TurnsLeft g) < 1 \<Longrightarrow> game_loop g io = (Inr g, io)"
  by (simp add: game_loop.simps [of g] IsRunning_iff)

lemma noexcept_simps:
  "noexcept (Inl (Runtime_error m)) = Inl (Terminate m)"
  "noexcept (Inl (Terminate m)) = Inl (Terminate m)"
  "noexcept (Inr v) = Inr v"
  by (simp_all add: noexcept_def)

lemma CheckArgument_ok: "pred a \<Longrightarrow> CheckArgument a pred msg = Inr a"
  by (simp add: CheckArgument_def)

lemma width_pred: "(MIN_WIDTH \<le>s w \<and> w \<le>s MAX_WIDTH) \<longleftrightarrow> (1 \<le> sint w \<and> sint w \<le> 10000)"
  by (simp add: MIN_WIDTH_def MAX_WIDTH_def word_sle_eq)

lemma height_pred: "(MIN_HEIGHT \<le>s h \<and> h \<le>s MAX_HEIGHT) \<longleftrightarrow> (5 \<le> sint h \<and> sint h \<le> 10000)"
  by (simp add: MIN_HEIGHT_def MAX_HEIGHT_def word_sle_eq)

lemma turns_pred:
  "(MIN_INPUT_TURNS \<le>s t \<and> t \<le>s MAX_INPUT_TURNS) \<longleftrightarrow> (2 \<le> sint t \<and> sint t \<le> 100)"
  by (simp add: MIN_INPUT_TURNS_def MAX_INPUT_TURNS_def word_sle_eq)

lemma x0_pred: "(0 \<le>s x \<and> x <s MAX_WIDTH) \<longleftrightarrow> (0 \<le> sint x \<and> sint x < 10000)"
  by (simp add: MAX_WIDTH_def word_sle_eq word_sless_alt)

lemma y0_pred: "(0 \<le>s y \<and> y <s MAX_HEIGHT) \<longleftrightarrow> (0 \<le> sint y \<and> sint y < 10000)"
  by (simp add: MAX_HEIGHT_def word_sle_eq word_sless_alt)

lemma Building_ctor_ok:
  "1 \<le> sint w \<and> sint w \<le> 10000 \<Longrightarrow> 5 \<le> sint h \<and> sint h \<le> 10000 \<Longrightarrow>
   Building_ctor w h = Inr \<lparr>Width = w, Height = h\<rparr>"
  by (simp add: Building_ctor_def CheckArgument_ok width_pred height_pred noexcept_simps)

lemma Building_ctor_bad_width:
  "\<not> (1 \<le> sint w \<and> sint w \<le> 10000) \<Longrightarrow>
   Building_ctor w h =
     Inl (Terminate (''Building width: argument '' @ [CHR 0x27] @ put_int w @ [CHR 0x27] @ '' is incorrect''))"
  by (simp add: Building_ctor_def CheckArgument_def width_pred noexcept_simps)

lemma Building_ctor_bad_height:
  "1 \<le> sint w \<and> sint w \<le> 10000 \<Longrightarrow> \<not> (5 \<le> sint h \<and> sint h \<le> 10000) \<Longrightarrow>
   Building_ctor w h =
     Inl (Terminate (''Building height: argument '' @ [CHR 0x27] @ put_int h @ [CHR 0x27] @ '' is incorrect''))"
  by (simp add: Building_ctor_def CheckArgument_def width_pred height_pred noexcept_simps)

lemma Building_ctor_isl:
  "isl (Building_ctor w h) \<longleftrightarrow>
     \<not> (1 \<le> sint w \<and> sint w \<le> 10000) \<or> \<not> (5 \<le> sint h \<and> sint h \<le> 10000)"
proof (cases "1 \<le> sint w \<and> sint w \<le> 10000")
  case w: True
  show ?thesis
  proof (cases "5 \<le> sint h \<and> sint h \<le> 10000")
    case True
    with w show ?thesis by (simp add: Building_ctor_ok)
  next
    case False
    with w show ?thesis by (simp add: Building_ctor_bad_height)
  qed
next
  case False
  then show ?thesis by (simp add: Building_ctor_bad_width)
qed

lemma Batman_ctor_ok:
  "0 \<le> sint x \<and> sint x < 10000 \<Longrightarrow> 0 \<le> sint y \<and> sint y < 10000 \<Longrightarrow>
   Batman_ctor x y = Inr \<lparr>Position = \<lparr>X = x, Y = y\<rparr>\<rparr>"
  by (simp add: Batman_ctor_def CheckArgument_ok x0_pred y0_pred noexcept_simps)

lemma Batman_ctor_bad_x:
  "\<not> (0 \<le> sint x \<and> sint x < 10000) \<Longrightarrow>
   Batman_ctor x y =
     Inl (Terminate (''Batman x0: argument '' @ [CHR 0x27] @ put_int x @ [CHR 0x27] @ '' is incorrect''))"
  by (simp add: Batman_ctor_def CheckArgument_def x0_pred noexcept_simps)

lemma Batman_ctor_bad_y:
  "0 \<le> sint x \<and> sint x < 10000 \<Longrightarrow> \<not> (0 \<le> sint y \<and> sint y < 10000) \<Longrightarrow>
   Batman_ctor x y =
     Inl (Terminate (''Batman y0: argument '' @ [CHR 0x27] @ put_int y @ [CHR 0x27] @ '' is incorrect''))"
  by (simp add: Batman_ctor_def CheckArgument_def x0_pred y0_pred noexcept_simps)

lemma Batman_ctor_isl:
  "isl (Batman_ctor x y) \<longleftrightarrow>
     \<not> (0 \<le> sint x \<and> sint x < 10000) \<or> \<not> (0 \<le> sint y \<and> sint y < 10000)"
proof (cases "0 \<le> sint x \<and> sint x < 10000")
  case x: True
  show ?thesis
  proof (cases "0 \<le> sint y \<and> sint y < 10000")
    case True
    with x show ?thesis by (simp add: Batman_ctor_ok)
  next
    case False
    with x show ?thesis by (simp add: Batman_ctor_bad_y)
  qed
next
  case False
  then show ?thesis by (simp add: Batman_ctor_bad_x)
qed

lemma ReadTurns_ok:
  "2 \<le> sint (extract_int input) \<and> sint (extract_int input) \<le> 100 \<Longrightarrow>
   ReadTurns input = (Inr (extract_int input), after_int input)"
  by (simp add: ReadTurns_def Read_int_def CheckArgument_ok turns_pred)

lemma ReadTurns_bad:
  "\<not> (2 \<le> sint (extract_int input) \<and> sint (extract_int input) \<le> 100) \<Longrightarrow>
   ReadTurns input =
     (Inl (Runtime_error (''Turns left: argument '' @ [CHR 0x27] @ put_int (extract_int input) @
            [CHR 0x27] @ '' is incorrect'')), after_int input)"
  by (simp add: ReadTurns_def Read_int_def CheckArgument_def turns_pred)

lemma ReadBuilding_eq:
  "ReadBuilding input =
     (Building_ctor (extract_int input) (extract_int (after_int input)), after_int (after_int input))"
  by (simp add: ReadBuilding_def Read_int_def)

lemma ReadBatman_eq:
  "ReadBatman input =
     (Batman_ctor (extract_int input) (extract_int (after_int input)), after_int (after_int input))"
  by (simp add: ReadBatman_def Read_int_def)

lemma Game_ctor_ok:
  assumes "1 \<le> sint (extract_int cin) \<and> sint (extract_int cin) \<le> 10000"
    and "5 \<le> sint (extract_int (after_int cin)) \<and> sint (extract_int (after_int cin)) \<le> 10000"
    and "2 \<le> sint (extract_int ((after_int ^^ 2) cin)) \<and> sint (extract_int ((after_int ^^ 2) cin)) \<le> 100"
    and "0 \<le> sint (extract_int ((after_int ^^ 3) cin)) \<and> sint (extract_int ((after_int ^^ 3) cin)) < 10000"
    and "0 \<le> sint (extract_int ((after_int ^^ 4) cin)) \<and> sint (extract_int ((after_int ^^ 4) cin)) < 10000"
  shows "Game_ctor cin =
    (Inr \<lparr>House = \<lparr>Width = extract_int cin, Height = extract_int (after_int cin)\<rparr>,
          TurnsLeft = extract_int ((after_int ^^ 2) cin),
          Player = \<lparr>Position = \<lparr>X = extract_int ((after_int ^^ 3) cin),
                                 Y = extract_int ((after_int ^^ 4) cin)\<rparr>\<rparr>,
          Strategy = SimpleStrategy\<rparr>,
     (after_int ^^ 5) cin)"
  using assms
  by (simp add: Game_ctor_def ReadBuilding_eq ReadBatman_eq ReadTurns_ok Building_ctor_ok
      Batman_ctor_ok CreateStrategy_def eval_nat_numeral)

lemma Game_ctor_bad_turns:
  assumes "1 \<le> sint (extract_int cin) \<and> sint (extract_int cin) \<le> 10000"
    and "5 \<le> sint (extract_int (after_int cin)) \<and> sint (extract_int (after_int cin)) \<le> 10000"
    and "\<not> (2 \<le> sint (extract_int ((after_int ^^ 2) cin)) \<and> sint (extract_int ((after_int ^^ 2) cin)) \<le> 100)"
  shows "Game_ctor cin =
    (Inl (Terminate (''Turns left: argument '' @ [CHR 0x27] @
            put_int (extract_int ((after_int ^^ 2) cin)) @ [CHR 0x27] @ '' is incorrect'')),
     (after_int ^^ 3) cin)"
  using assms
  by (simp add: Game_ctor_def ReadBuilding_eq ReadTurns_bad Building_ctor_ok noexcept_simps
      eval_nat_numeral)

lemma Game_ctor_failure_Terminate:
  assumes "Game_ctor cin = (Inl e, cin1)"
  shows "\<exists>m. e = Terminate m"
proof -
  have "noexcept (Inl f :: failure + Game) = Inl e \<Longrightarrow> \<exists>m. e = Terminate m" for f
    by (cases f) (auto simp: noexcept_def)
  with assms show ?thesis
    by (auto simp: Game_ctor_def split: prod.splits sum.splits)
qed

lemma ReadTurns_Inr:
  assumes "ReadTurns i = (Inr t, i1)"
  shows "2 \<le> sint t \<and> sint t \<le> 100"
  using assms
  by (cases "2 \<le> sint (extract_int i) \<and> sint (extract_int i) \<le> 100")
    (auto simp: ReadTurns_ok ReadTurns_bad)

lemma Game_ctor_Inr_turns:
  assumes "Game_ctor cin = (Inr g, cin1)"
  shows "2 \<le> sint (TurnsLeft g) \<and> sint (TurnsLeft g) \<le> 100"
proof -
  from assms obtain house in1 in2 where "ReadTurns in1 = (Inr (TurnsLeft g), in2)"
    by (auto simp: Game_ctor_def noexcept_def split: prod.splits sum.splits failure.splits)
  then show ?thesis
    by (rule ReadTurns_Inr)
qed

lemma Game_ctor_turns_checked:
  assumes "\<not> (2 \<le> sint (extract_int ((after_int ^^ 2) cin)) \<and> sint (extract_int ((after_int ^^ 2) cin)) \<le> 100)"
  shows "\<exists>m cin1. Game_ctor cin = (Inl (Terminate m), cin1)"
proof (cases "(1 \<le> sint (extract_int cin) \<and> sint (extract_int cin) \<le> 10000) \<and>
    (5 \<le> sint (extract_int (after_int cin)) \<and> sint (extract_int (after_int cin)) \<le> 10000)")
  case True
  with assms show ?thesis
    by (simp add: Game_ctor_bad_turns)
next
  case False
  then have "isl (Building_ctor (extract_int cin) (extract_int (after_int cin)))"
    by (simp add: Building_ctor_isl)
  then obtain e where "Building_ctor (extract_int cin) (extract_int (after_int cin)) = Inl e"
    by (auto simp: isl_def)
  then have "Game_ctor cin = (noexcept (Inl e), after_int (after_int cin))"
    by (simp add: Game_ctor_def ReadBuilding_eq)
  moreover have "\<exists>m. (noexcept (Inl e) :: failure + Game) = Inl (Terminate m)"
    by (cases e) (simp_all add: noexcept_def)
  ultimately show ?thesis
    by auto
qed

lemma main_ok:
  assumes "Game_ctor cin = (Inr g, cin1)"
  shows "main cin =
    (Inr 0, ((after_string ^^ nat (sint (TurnsLeft g))) cin1,
             concat (replicate (nat (sint (TurnsLeft g))) (''0 0'' @ [CHR 0x0A]))))"
proof -
  from Game_ctor_Inr_turns [OF assms] have "sint (TurnsLeft g) = int (nat (sint (TurnsLeft g)))"
    by simp
  from game_loop_run [OF this, of cin1 "[]"] assms show ?thesis
    by (simp add: main_def)
qed

lemma main_bad:
  "Game_ctor cin = (Inl e, cin1) \<Longrightarrow> main cin = (Inl e, (cin1, []))"
  by (simp add: main_def)

lemma split_lines_origin:
  "split_lines (concat (replicate n (''0 0'' @ [CHR 0x0A]))) = replicate n ''0 0''"
  by (induction n) simp_all

lemma probe_text_origin: "probe_text \<lparr>X = 0, Y = 0\<rparr> = ''0 0''"
  by (simp add: probe_text_def put_int_0)

lemma digit_char_not_space: "d < 10 \<Longrightarrow> digit_char d \<noteq> CHR '' ''"
proof -
  assume "d < 10"
  then have "d \<in> {0, 1, 2, 3, 4, 5, 6, 7, 8, 9}"
    by auto
  then show ?thesis
    by (auto simp: digit_char_def)
qed

lemma digit_char_eq_0: "d < 10 \<Longrightarrow> digit_char d = CHR ''0'' \<longleftrightarrow> d = 0"
proof -
  assume "d < 10"
  then have "d \<in> {0, 1, 2, 3, 4, 5, 6, 7, 8, 9}"
    by auto
  then show ?thesis
    by (auto simp: digit_char_def)
qed

lemma dec_digits_not_Nil: "dec_digits n \<noteq> []"
  by (subst dec_digits.simps) simp

lemma dec_digits_no_space: "CHR '' '' \<notin> set (dec_digits n)"
proof (induction n rule: dec_digits.induct)
  case (1 n)
  show ?case
  proof (cases "n < 10")
    case True
    then show ?thesis
      using digit_char_not_space [of n] by (subst dec_digits.simps) auto
  next
    case False
    with "1" have "CHR '' '' \<notin> set (dec_digits (n div 10))"
      by simp
    moreover have "digit_char (n mod 10) \<noteq> CHR '' ''"
      by (simp add: digit_char_not_space)
    ultimately show ?thesis
      using False by (subst dec_digits.simps) simp
  qed
qed

lemma dec_digits_eq_0: "dec_digits n = ''0'' \<longleftrightarrow> n = 0"
proof (cases "n < 10")
  case True
  then show ?thesis
    by (subst dec_digits.simps) (simp add: digit_char_eq_0)
next
  case False
  then have "dec_digits n = dec_digits (n div 10) @ [digit_char (n mod 10)]"
    by (subst dec_digits.simps) simp
  with False dec_digits_not_Nil [of "n div 10"] show ?thesis
    by (auto simp: append_eq_Cons_conv)
qed

lemma put_int_no_space: "CHR '' '' \<notin> set (put_int v)"
  by (simp add: put_int_def dec_digits_no_space)

lemma put_int_eq_0: "put_int v = ''0'' \<longleftrightarrow> v = 0"
proof
  assume eq: "put_int v = ''0''"
  then have "\<not> sint v < 0"
    by (auto simp: put_int_def)
  with eq have "nat (sint v) = 0"
    by (simp add: put_int_def dec_digits_eq_0)
  with \<open>\<not> sint v < 0\<close> have "sint v = 0"
    by simp
  then show "v = 0"
    by (simp add: signed_eq_0_iff)
qed (simp add: put_int_0)

lemma probe_text_eq_origin: "probe_text p = ''0 0'' \<longleftrightarrow> X p = 0 \<and> Y p = 0"
proof
  assume eq: "probe_text p = ''0 0''"
  have "a @ CHR '' '' # b = ''0 0'' \<Longrightarrow> CHR '' '' \<notin> set a \<Longrightarrow> a = ''0'' \<and> b = ''0''" for a b
    by (auto simp: append_eq_Cons_conv)
  from this [of "put_int (X p)" "put_int (Y p)"] eq put_int_no_space [of "X p"]
  show "X p = 0 \<and> Y p = 0"
    by (simp add: probe_text_def put_int_eq_0)
qed (simp add: probe_text_def put_int_0)

lemma put_int_digit:
  "put_int 1 = ''1''" "put_int 3 = ''3''" "put_int 6 = ''6''"
  by (simp_all add: put_int_def dec_digits.simps digit_char_def)

lemma scenario_game_running: "IsRunning scenario_game"
  by (simp add: IsRunning_iff scenario_game_def)

lemma scenario_bootstrap:
  "Game_ctor (scripted [10, 5, 20, 0, 0] ts) = (Inr scenario_game, scripted [] ts)"
  by (simp add: Game_ctor_ok scenario_game_def eval_nat_numeral)

lemma window_area_scenario: "window_area (scenario_game\<lparr>TurnsLeft := v\<rparr>) = 50"
  by (simp add: window_area_def scenario_game_def GetWidth_def GetHeight_def)

lemma NextTurn_Inr:
  assumes "NextTurn g io = (Inr g', io')"
  shows "IsRunning g \<and> g' = g\<lparr>TurnsLeft := TurnsLeft g - 1\<rparr> \<and>
    io' = (after_string (fst io), snd io @ ''0 0'' @ [CHR 0x0A])"
  using assms
  by (cases io; cases "IsRunning g") (auto simp: NextTurn_running NextTurn_stopped)

lemma NextTurn_Inl:
  assumes "NextTurn g io = (Inl e, io')"
  shows "\<not> IsRunning g \<and> e = Runtime_error ''The game is not running: no turns left'' \<and> io' = io"
  using assms
  by (cases io; cases "IsRunning g") (auto simp: NextTurn_running NextTurn_stopped)

lemma game_loop_Inr:
  assumes "game_loop g io = (Inr g', io')"
  shows "g' = g \<or> g' = g\<lparr>TurnsLeft := 0\<rparr>"
proof (cases "sint (TurnsLeft g) < 1")
  case True
  with assms show ?thesis
    by (simp add: game_loop_negative)
next
  case False
  then have "sint (TurnsLeft g) = int (nat (sint (TurnsLeft g)))"
    by simp
  from game_loop_run [OF this, of "fst io" "snd io"] assms show ?thesis
    by auto
qed

lemma set_replicate_line: "0 < n \<Longrightarrow> l \<in> set (replicate n t) \<longleftrightarrow> l = t"
  by auto

lemma split_lines_origin_nf:
  "split_lines (concat (replicate n [CHR ''0'', CHR '' '', CHR ''0'', CHR 0x0A])) =
     replicate n ''0 0''"
  using split_lines_origin [of n] by simp

section \<open>The claims\<close>

text \<open>
  C1. For every feedback token the strategy decides the point (0,0) and is left as it
  was: the token is never looked at. A turn therefore appends to the output exactly
  the text of that point, \<open>0 0\<close>, and one newline, whatever the input stream answers.
\<close>

theorem SimpleStrategy_always_origin:
  "MakeDecision strategy bombDirection = (\<lparr>X = 0, Y = 0\<rparr>, strategy) \<and>
   OnTurn g (cin, cout) = (g, (after_string cin, cout @ ''0 0'' @ [CHR 0x0A])) \<and>
   snd (snd (OnTurn g (cin, cout))) =
     cout @ probe_text (fst (MakeDecision (Strategy g) (extract_string cin))) @ [CHR 0x0A]"
  by (simp add: MakeDecision_origin OnTurn_eq probe_text_origin)

text \<open>The same at a concrete strategy, token, game and pair of streams.\<close>

theorem SimpleStrategy_always_origin_witness:
  "MakeDecision SimpleStrategy ''UNKNOWN'' = (\<lparr>X = 0, Y = 0\<rparr>, SimpleStrategy) \<and>
   snd (snd (OnTurn
     \<lparr>House = \<lparr>Width = 10, Height = 5\<rparr>, TurnsLeft = 20,
      Player = \<lparr>Position = \<lparr>X = 0, Y = 0\<rparr>\<rparr>, Strategy = SimpleStrategy\<rparr>
     (scripted [] [''WARMER''], ''0 0'' @ [CHR 0x0A]))) = ''0 0'' @ [CHR 0x0A] @ ''0 0'' @ [CHR 0x0A]"
  using SimpleStrategy_always_origin [of SimpleStrategy "''UNKNOWN''"
      "\<lparr>House = \<lparr>Width = 10, Height = 5\<rparr>, TurnsLeft = 20,
        Player = \<lparr>Position = \<lparr>X = 0, Y = 0\<rparr>\<rparr>, Strategy = SimpleStrategy\<rparr>"
      "scripted [] [''WARMER'']" "''0 0'' @ [CHR 0x0A]"]
  by simp

text \<open>
  C2. Constructing a \<open>Building\<close> from two integers fails if and only if the width is
  outside [1, 10000] or the height is outside [5, 10000]; the failure is the error of
  \<^verbatim>\<open>CheckArgument\<close> for the width or for the height, ending in \<^verbatim>\<open>std::terminate\<close> at the
  \<^verbatim>\<open>noexcept\<close> constructor. On success the accessors return the two arguments, and
  neither a turn nor the whole loop changes the house of a game.
\<close>

theorem Building_ctor_validates:
  "(isl (Building_ctor w h) \<longleftrightarrow>
      \<not> (1 \<le> sint w \<and> sint w \<le> 10000) \<or> \<not> (5 \<le> sint h \<and> sint h \<le> 10000)) \<and>
   (\<forall>e. Building_ctor w h = Inl e \<longrightarrow>
      e = Terminate (''Building width: argument '' @ [CHR 0x27] @ put_int w @ [CHR 0x27] @
            '' is incorrect'') \<or>
      e = Terminate (''Building height: argument '' @ [CHR 0x27] @ put_int h @ [CHR 0x27] @
            '' is incorrect'')) \<and>
   (\<forall>b. Building_ctor w h = Inr b \<longrightarrow> GetWidth b = w \<and> GetHeight b = h) \<and>
   (\<forall>g io g' io'. NextTurn g io = (Inr g', io') \<longrightarrow> House g' = House g) \<and>
   (\<forall>g io g' io'. game_loop g io = (Inr g', io') \<longrightarrow> House g' = House g)"
proof (intro conjI allI impI)
  show "isl (Building_ctor w h) \<longleftrightarrow>
      \<not> (1 \<le> sint w \<and> sint w \<le> 10000) \<or> \<not> (5 \<le> sint h \<and> sint h \<le> 10000)"
    by (rule Building_ctor_isl)
next
  fix e
  assume "Building_ctor w h = Inl e"
  then show "e = Terminate (''Building width: argument '' @ [CHR 0x27] @ put_int w @ [CHR 0x27] @
            '' is incorrect'') \<or>
      e = Terminate (''Building height: argument '' @ [CHR 0x27] @ put_int h @ [CHR 0x27] @
            '' is incorrect'')"
    by (cases "1 \<le> sint w \<and> sint w \<le> 10000"; cases "5 \<le> sint h \<and> sint h \<le> 10000")
      (simp_all add: Building_ctor_ok Building_ctor_bad_width Building_ctor_bad_height)
next
  fix b
  assume b: "Building_ctor w h = Inr b"
  then have "\<not> isl (Building_ctor w h)"
    by simp
  then have "Building_ctor w h = Inr \<lparr>Width = w, Height = h\<rparr>"
    by (simp add: Building_ctor_isl Building_ctor_ok)
  with b show "GetWidth b = w" "GetHeight b = h"
    by (auto simp: GetWidth_def GetHeight_def)
next
  fix g g' :: Game and io io' :: "istream \<times> ostream"
  assume "NextTurn g io = (Inr g', io')"
  then show "House g' = House g"
    by (cases io; cases "IsRunning g") (auto simp: NextTurn_running NextTurn_stopped)
next
  fix g g' :: Game and io io' :: "istream \<times> ostream"
  assume loop: "game_loop g io = (Inr g', io')"
  show "House g' = House g"
  proof (cases "sint (TurnsLeft g) < 1")
    case True
    with loop show ?thesis
      by (simp add: game_loop_negative)
  next
    case False
    then have "sint (TurnsLeft g) = int (nat (sint (TurnsLeft g)))"
      by simp
    from game_loop_run [OF this, of "fst io" "snd io"] loop show ?thesis
      by auto
  qed
qed

text \<open>The bounds themselves are accepted, their neighbours refused.\<close>

theorem Building_ctor_validates_witness:
  "isl (Building_ctor 0 5) \<and> isl (Building_ctor 10 4) \<and> isl (Building_ctor 10001 10000) \<and>
   \<not> isl (Building_ctor 1 5) \<and> \<not> isl (Building_ctor 10000 10000) \<and>
   GetWidth \<lparr>Width = 10, Height = 5\<rparr> = 10 \<and> GetHeight \<lparr>Width = 10, Height = 5\<rparr> = 5 \<and>
   Building_ctor 10 5 = Inr \<lparr>Width = 10, Height = 5\<rparr>"
proof -
  have ok: "Building_ctor 10 5 = Inr \<lparr>Width = 10, Height = 5\<rparr>"
    by (simp add: Building_ctor_ok)
  from Building_ctor_validates [of 10 5] ok
  have "GetWidth \<lparr>Width = 10, Height = 5\<rparr> = 10 \<and> GetHeight \<lparr>Width = 10, Height = 5\<rparr> = 5"
    by blast
  with ok Building_ctor_validates [of 0 5] Building_ctor_validates [of 10 4]
    Building_ctor_validates [of 10001 10000] Building_ctor_validates [of 1 5]
    Building_ctor_validates [of 10000 10000]
  show ?thesis
    by simp
qed

text \<open>
  C3. \<^verbatim>\<open>ReadTurns\<close> accepts the number it extracts exactly when it lies in [2, 100] and
  otherwise throws the error of \<^verbatim>\<open>CheckArgument\<close>. At bootstrap the turns are the third
  number of the input: when it is out of range the constructor of the game ends in
  \<^verbatim>\<open>std::terminate\<close>, \<^verbatim>\<open>main\<close> ends with it, and nothing has been written. When the
  building before it is valid, the failure is the one about the turns.
\<close>

theorem ReadTurns_validates:
  fixes input cin :: istream
  defines "t \<equiv> extract_int input"
    and "w1 \<equiv> extract_int cin"
    and "h2 \<equiv> extract_int (after_int cin)"
    and "t3 \<equiv> extract_int ((after_int ^^ 2) cin)"
  shows
  "(isl (fst (ReadTurns input)) \<longleftrightarrow> \<not> (2 \<le> sint t \<and> sint t \<le> 100)) \<and>
   (\<not> (2 \<le> sint t \<and> sint t \<le> 100) \<longrightarrow>
      ReadTurns input =
        (Inl (Runtime_error (''Turns left: argument '' @ [CHR 0x27] @ put_int t @ [CHR 0x27] @
               '' is incorrect'')), after_int input)) \<and>
   (\<not> (2 \<le> sint t3 \<and> sint t3 \<le> 100) \<longrightarrow>
      (\<exists>m. fst (Game_ctor cin) = Inl (Terminate m) \<and> fst (main cin) = Inl (Terminate m)) \<and>
      snd (snd (main cin)) = []) \<and>
   ((1 \<le> sint w1 \<and> sint w1 \<le> 10000) \<and> (5 \<le> sint h2 \<and> sint h2 \<le> 10000) \<and>
    \<not> (2 \<le> sint t3 \<and> sint t3 \<le> 100) \<longrightarrow>
      main cin =
        (Inl (Terminate (''Turns left: argument '' @ [CHR 0x27] @ put_int t3 @ [CHR 0x27] @
               '' is incorrect'')), ((after_int ^^ 3) cin, [])))"
proof (intro conjI impI)
  show "isl (fst (ReadTurns input)) \<longleftrightarrow> \<not> (2 \<le> sint t \<and> sint t \<le> 100)"
    unfolding t_def
    by (cases "2 \<le> sint (extract_int input) \<and> sint (extract_int input) \<le> 100")
      (simp_all add: ReadTurns_ok ReadTurns_bad)
next
  assume "\<not> (2 \<le> sint t \<and> sint t \<le> 100)"
  then show "ReadTurns input =
        (Inl (Runtime_error (''Turns left: argument '' @ [CHR 0x27] @ put_int t @ [CHR 0x27] @
               '' is incorrect'')), after_int input)"
    unfolding t_def by (rule ReadTurns_bad)
next
  assume bad: "\<not> (2 \<le> sint t3 \<and> sint t3 \<le> 100)"
  then obtain m cin1 where ctor: "Game_ctor cin = (Inl (Terminate m), cin1)"
    unfolding t3_def using Game_ctor_turns_checked by blast
  then have run: "main cin = (Inl (Terminate m), (cin1, []))"
    by (rule main_bad)
  from ctor run
  show "\<exists>m. fst (Game_ctor cin) = Inl (Terminate m) \<and> fst (main cin) = Inl (Terminate m)"
    by simp
  from run show "snd (snd (main cin)) = []"
    by simp
next
  assume "(1 \<le> sint w1 \<and> sint w1 \<le> 10000) \<and> (5 \<le> sint h2 \<and> sint h2 \<le> 10000) \<and>
    \<not> (2 \<le> sint t3 \<and> sint t3 \<le> 100)"
  then have "Game_ctor cin =
    (Inl (Terminate (''Turns left: argument '' @ [CHR 0x27] @ put_int t3 @ [CHR 0x27] @
            '' is incorrect'')), (after_int ^^ 3) cin)"
    unfolding w1_def h2_def t3_def by (intro Game_ctor_bad_turns) simp_all
  then show "main cin =
        (Inl (Terminate (''Turns left: argument '' @ [CHR 0x27] @ put_int t3 @ [CHR 0x27] @
               '' is incorrect'')), ((after_int ^^ 3) cin, []))"
    by (rule main_bad)
qed

text \<open>Budgets 1, 101 and 0 are refused, 2 and 100 accepted; a session with budget 1 aborts.\<close>

theorem ReadTurns_validates_witness:
  "isl (fst (ReadTurns (scripted [1] []))) \<and> isl (fst (ReadTurns (scripted [101] []))) \<and>
   \<not> isl (fst (ReadTurns (scripted [2] []))) \<and> \<not> isl (fst (ReadTurns (scripted [100] []))) \<and>
   fst (ReadTurns (scripted [0] [])) =
     Inl (Runtime_error (''Turns left: argument '' @ [CHR 0x27] @ ''0'' @ [CHR 0x27] @
       '' is incorrect'')) \<and>
   fst (main (scripted [10, 5, 1, 0, 0] [''UNKNOWN''])) =
     Inl (Terminate (''Turns left: argument '' @ [CHR 0x27] @ ''1'' @ [CHR 0x27] @
       '' is incorrect'')) \<and>
   snd (snd (main (scripted [10, 5, 1, 0, 0] [''UNKNOWN'']))) = []"
proof -
  have one: "put_int 1 = ''1''"
    by (simp add: put_int_def dec_digits.simps digit_char_def)
  show ?thesis
    using ReadTurns_validates [of "scripted [1] []" "scripted [10, 5, 1, 0, 0] [''UNKNOWN'']"]
      ReadTurns_validates [of "scripted [101] []" "scripted [10, 5, 1, 0, 0] [''UNKNOWN'']"]
      ReadTurns_validates [of "scripted [2] []" "scripted [10, 5, 1, 0, 0] [''UNKNOWN'']"]
      ReadTurns_validates [of "scripted [100] []" "scripted [10, 5, 1, 0, 0] [''UNKNOWN'']"]
      ReadTurns_validates [of "scripted [0] []" "scripted [10, 5, 1, 0, 0] [''UNKNOWN'']"]
    by (auto simp: eval_nat_numeral put_int_0 one)
qed

text \<open>
  C4. A session is over exactly when \<open>TurnsLeft\<close> is below 1. A turn of a running session
  succeeds and leaves \<open>TurnsLeft\<close> smaller by exactly 1. A turn asked of a session that
  is over throws "The game is not running: no turns left", and both streams are as they
  were: nothing was read or written.
\<close>

theorem NextTurn_counts_down:
  "(\<not> IsRunning g \<longleftrightarrow> sint (TurnsLeft g) < 1) \<and>
   (IsRunning g \<longrightarrow>
      (\<exists>g' io'. NextTurn g io = (Inr g', io') \<and> sint (TurnsLeft g') = sint (TurnsLeft g) - 1)) \<and>
   (\<not> IsRunning g \<longrightarrow>
      NextTurn g io = (Inl (Runtime_error ''The game is not running: no turns left''), io))"
proof (intro conjI impI)
  show "\<not> IsRunning g \<longleftrightarrow> sint (TurnsLeft g) < 1"
    by (auto simp: IsRunning_iff)
next
  assume run: "IsRunning g"
  obtain cin cout where io: "io = (cin, cout)"
    by (cases io)
  from run have "sint (TurnsLeft g - 1) = sint (TurnsLeft g) - 1"
    by (simp add: IsRunning_iff sint_dec)
  with run io
  show "\<exists>g' io'. NextTurn g io = (Inr g', io') \<and> sint (TurnsLeft g') = sint (TurnsLeft g) - 1"
    by (simp add: NextTurn_running)
next
  assume "\<not> IsRunning g"
  then show "NextTurn g io = (Inl (Runtime_error ''The game is not running: no turns left''), io)"
    by (rule NextTurn_stopped)
qed

text \<open>A game with one turn left runs and reaches 0; a game with none throws.\<close>

theorem NextTurn_counts_down_witness:
  "IsRunning \<lparr>House = \<lparr>Width = 10, Height = 5\<rparr>, TurnsLeft = 1,
      Player = \<lparr>Position = \<lparr>X = 0, Y = 0\<rparr>\<rparr>, Strategy = SimpleStrategy\<rparr> \<and>
   (\<exists>g' io'.
      NextTurn \<lparr>House = \<lparr>Width = 10, Height = 5\<rparr>, TurnsLeft = 1,
        Player = \<lparr>Position = \<lparr>X = 0, Y = 0\<rparr>\<rparr>, Strategy = SimpleStrategy\<rparr>
        (scripted [] [''SAME''], []) = (Inr g', io') \<and>
      sint (TurnsLeft g') = 0) \<and>
   \<not> IsRunning \<lparr>House = \<lparr>Width = 10, Height = 5\<rparr>, TurnsLeft = 0,
      Player = \<lparr>Position = \<lparr>X = 0, Y = 0\<rparr>\<rparr>, Strategy = SimpleStrategy\<rparr> \<and>
   NextTurn \<lparr>House = \<lparr>Width = 10, Height = 5\<rparr>, TurnsLeft = 0,
      Player = \<lparr>Position = \<lparr>X = 0, Y = 0\<rparr>\<rparr>, Strategy = SimpleStrategy\<rparr>
      (scripted [] [''SAME''], []) =
     (Inl (Runtime_error ''The game is not running: no turns left''), (scripted [] [''SAME''], []))"
proof -
  let ?g1 = "\<lparr>House = \<lparr>Width = 10, Height = 5\<rparr>, TurnsLeft = 1,
      Player = \<lparr>Position = \<lparr>X = 0, Y = 0\<rparr>\<rparr>, Strategy = SimpleStrategy\<rparr>"
  let ?g0 = "\<lparr>House = \<lparr>Width = 10, Height = 5\<rparr>, TurnsLeft = 0,
      Player = \<lparr>Position = \<lparr>X = 0, Y = 0\<rparr>\<rparr>, Strategy = SimpleStrategy\<rparr>"
  have run: "IsRunning ?g1" and stop: "\<not> IsRunning ?g0"
    by (simp_all add: IsRunning_iff)
  from run stop NextTurn_counts_down [of ?g1 "(scripted [] [''SAME''], [])"]
    NextTurn_counts_down [of ?g0 "(scripted [] [''SAME''], [])"]
  show ?thesis
    by simp
qed

text \<open>
  C5, as claimed: the area of the search rectangle strictly decreases every turn until
  convergence or until the target is found. The program keeps no search rectangle; the
  only rectangle of a session is its house. In the scenario session (bootstrap
  \<open>10 5 20 0 0\<close>, target (6,3)) the first turn succeeds and writes \<open>0 0\<close>, which is
  not the target; the area is 50 before the turn, so nothing has converged, and it is
  not smaller after it.
\<close>

theorem window_area_strictly_decreases_counterexample:
  "fst (Game_ctor (scripted [10, 5, 20, 0, 0] [''UNKNOWN''])) = Inr scenario_game \<and>
   fst (NextTurn scenario_game (scripted [] [''UNKNOWN''], [])) =
     Inr (scenario_game\<lparr>TurnsLeft := 19\<rparr>) \<and>
   snd (snd (NextTurn scenario_game (scripted [] [''UNKNOWN''], []))) = ''0 0'' @ [CHR 0x0A] \<and>
   probe_text \<lparr>X = 6, Y = 3\<rparr> = ''6 3'' \<and>
   window_area scenario_game = 50 \<and>
   \<not> window_area (scenario_game\<lparr>TurnsLeft := 19\<rparr>) < window_area scenario_game"
proof -
  have "TurnsLeft scenario_game - 1 = 19"
    by (simp add: scenario_game_def)
  moreover have "window_area scenario_game = 50"
    using window_area_scenario [of 20] by (simp add: scenario_game_def)
  ultimately show ?thesis
    by (simp add: scenario_bootstrap NextTurn_running [OF scenario_game_running]
        probe_text_def put_int_digit window_area_scenario)
qed

text \<open>
  C5, amended. A turn changes nothing of a session but \<open>TurnsLeft\<close>: the house, the
  player and the strategy are as before, whatever the feedback. The area of the
  session's only rectangle is therefore the same after every turn, and after the whole
  loop: it never increases, and it never strictly decreases.
\<close>

theorem NextTurn_changes_TurnsLeft_only:
  "(NextTurn g io = (Inr g', io') \<longrightarrow>
      g' = g\<lparr>TurnsLeft := TurnsLeft g - 1\<rparr> \<and> window_area g' = window_area g) \<and>
   (game_loop g io = (Inr g'', io'') \<longrightarrow> window_area g'' = window_area g)"
proof (intro conjI impI)
  assume "NextTurn g io = (Inr g', io')"
  then have "g' = g\<lparr>TurnsLeft := TurnsLeft g - 1\<rparr>"
    by (simp add: NextTurn_Inr)
  then show "g' = g\<lparr>TurnsLeft := TurnsLeft g - 1\<rparr>" "window_area g' = window_area g"
    by (simp_all add: window_area_def)
next
  assume "game_loop g io = (Inr g'', io'')"
  then have "g'' = g \<or> g'' = g\<lparr>TurnsLeft := 0\<rparr>"
    by (rule game_loop_Inr)
  then show "window_area g'' = window_area g"
    by (auto simp: window_area_def)
qed

text \<open>The scenario session: one turn, and the whole loop of 20 turns.\<close>

theorem NextTurn_changes_TurnsLeft_only_witness:
  "NextTurn scenario_game (scripted [] [''UNKNOWN''], []) =
     (Inr (scenario_game\<lparr>TurnsLeft := 19\<rparr>), (scripted [] [], ''0 0'' @ [CHR 0x0A])) \<and>
   window_area (scenario_game\<lparr>TurnsLeft := 19\<rparr>) = window_area scenario_game \<and>
   game_loop scenario_game (scripted [] [], []) =
     (Inr (scenario_game\<lparr>TurnsLeft := 0\<rparr>),
      ((after_string ^^ 20) (scripted [] []), concat (replicate 20 (''0 0'' @ [CHR 0x0A])))) \<and>
   window_area (scenario_game\<lparr>TurnsLeft := 0\<rparr>) = window_area scenario_game"
proof -
  have t: "TurnsLeft scenario_game - 1 = 19"
    by (simp add: scenario_game_def)
  have turn: "NextTurn scenario_game (scripted [] [''UNKNOWN''], []) =
     (Inr (scenario_game\<lparr>TurnsLeft := 19\<rparr>), (scripted [] [], ''0 0'' @ [CHR 0x0A]))"
    by (simp add: NextTurn_running [OF scenario_game_running] t)
  have "sint (TurnsLeft scenario_game) = int 20"
    by (simp add: scenario_game_def)
  then have loop: "game_loop scenario_game (scripted [] [], []) =
     (Inr (scenario_game\<lparr>TurnsLeft := 0\<rparr>),
      ((after_string ^^ 20) (scripted [] []), concat (replicate 20 (''0 0'' @ [CHR 0x0A]))))"
    by (simp add: game_loop_run)
  from turn
    NextTurn_changes_TurnsLeft_only [where g = scenario_game
      and io = "(scripted [] [''UNKNOWN''], [])" and g' = "scenario_game\<lparr>TurnsLeft := 19\<rparr>"
      and io' = "(scripted [] [], ''0 0'' @ [CHR 0x0A])"]
  have a: "window_area (scenario_game\<lparr>TurnsLeft := 19\<rparr>) = window_area scenario_game"
    by blast
  from loop
    NextTurn_changes_TurnsLeft_only [where g = scenario_game
      and io = "(scripted [] [], [])" and g'' = "scenario_game\<lparr>TurnsLeft := 0\<rparr>"
      and io'' = "((after_string ^^ 20) (scripted [] []),
        concat (replicate 20 (''0 0'' @ [CHR 0x0A])))"]
  have b: "window_area (scenario_game\<lparr>TurnsLeft := 0\<rparr>) = window_area scenario_game"
    by blast
  from turn a loop b show ?thesis
    by blast
qed

text \<open>
  C6. The decision is a function of the strategy object and the feedback alone: a call
  leaves the strategy as it was, so asking again with the same feedback gives the same
  point and strategy; and two games with the same strategy, given the same token, write
  the same text and keep the same strategy, whatever their house, player, turns left
  and the rest of their input are.
\<close>

theorem MakeDecision_deterministic:
  "snd (MakeDecision s fb) = s \<and>
   MakeDecision (snd (MakeDecision s fb)) fb = MakeDecision s fb \<and>
   (Strategy g1 = Strategy g2 \<and> extract_string cin1 = extract_string cin2 \<longrightarrow>
      snd (snd (OnTurn g1 (cin1, cout))) = snd (snd (OnTurn g2 (cin2, cout))) \<and>
      Strategy (fst (OnTurn g1 (cin1, cout))) = Strategy (fst (OnTurn g2 (cin2, cout))))"
  by (simp add: MakeDecision_origin OnTurn_eq)

text \<open>Two different games, the same token: the same line.\<close>

theorem MakeDecision_deterministic_witness:
  "MakeDecision (snd (MakeDecision SimpleStrategy ''WARMER'')) ''WARMER'' =
     MakeDecision SimpleStrategy ''WARMER'' \<and>
   snd (snd (OnTurn \<lparr>House = \<lparr>Width = 10, Height = 5\<rparr>, TurnsLeft = 20,
       Player = \<lparr>Position = \<lparr>X = 0, Y = 0\<rparr>\<rparr>, Strategy = SimpleStrategy\<rparr>
       (scripted [] [''WARMER''], []))) =
   snd (snd (OnTurn \<lparr>House = \<lparr>Width = 7, Height = 9\<rparr>, TurnsLeft = 3,
       Player = \<lparr>Position = \<lparr>X = 2, Y = 4\<rparr>\<rparr>, Strategy = SimpleStrategy\<rparr>
       (scripted [1] [''WARMER'', ''COLDER''], [])))"
  using MakeDecision_deterministic [of SimpleStrategy "''WARMER''"
      "\<lparr>House = \<lparr>Width = 10, Height = 5\<rparr>, TurnsLeft = 20,
        Player = \<lparr>Position = \<lparr>X = 0, Y = 0\<rparr>\<rparr>, Strategy = SimpleStrategy\<rparr>"
      "\<lparr>House = \<lparr>Width = 7, Height = 9\<rparr>, TurnsLeft = 3,
        Player = \<lparr>Position = \<lparr>X = 2, Y = 4\<rparr>\<rparr>, Strategy = SimpleStrategy\<rparr>"
      "scripted [] [''WARMER'']" "scripted [1] [''WARMER'', ''COLDER'']" "[]"]
  by simp

text \<open>
  C7, as claimed: with feedback consistent with a fixed target the probes reach the
  target within \<open>\<lceil>log2 width\<rceil> + \<lceil>log2 height\<rceil>\<close> turns, which is 4 + 3 = 7 for a
  building of 10 by 5. In the scenario session with target (6,3) the feedback is
  \<open>UNKNOWN\<close> and then, the probe never moving, \<open>SAME\<close>. The run ends normally after 20
  turns, every line written is \<open>0 0\<close>, and the line of the target, \<open>6 3\<close>, is not among
  them: not within 7 turns and not within 20.
\<close>

theorem probes_converge_to_target_counterexample:
  "fst (main (scripted [10, 5, 20, 0, 0] (''UNKNOWN'' # replicate 19 ''SAME''))) = Inr 0 \<and>
   split_lines (snd (snd (main (scripted [10, 5, 20, 0, 0] (''UNKNOWN'' # replicate 19 ''SAME''))))) =
     replicate 20 ''0 0'' \<and>
   probe_text \<lparr>X = 6, Y = 3\<rparr> = ''6 3'' \<and>
   probe_text \<lparr>X = 6, Y = 3\<rparr> \<notin>
     set (split_lines (snd (snd (main (scripted [10, 5, 20, 0, 0]
       (''UNKNOWN'' # replicate 19 ''SAME''))))))"
proof -
  let ?cin = "scripted [10, 5, 20, 0, 0] (''UNKNOWN'' # replicate 19 ''SAME'')"
  have n: "nat (sint (TurnsLeft scenario_game)) = 20"
    by (simp add: scenario_game_def)
  have run: "main ?cin =
    (Inr 0, ((after_string ^^ 20) (scripted [] (''UNKNOWN'' # replicate 19 ''SAME'')),
             concat (replicate 20 (''0 0'' @ [CHR 0x0A]))))"
    using main_ok [OF scenario_bootstrap, of "''UNKNOWN'' # replicate 19 ''SAME''"]
    by (simp only: n)
  have lines: "split_lines (snd (snd (main ?cin))) = replicate 20 ''0 0''"
    by (simp only: run snd_conv split_lines_origin)
  have target: "probe_text \<lparr>X = 6, Y = 3\<rparr> = ''6 3''"
    by (simp add: probe_text_def put_int_digit)
  have "''6 3'' \<notin> set (replicate 20 ''0 0'')"
    by simp
  with run lines target show ?thesis
    by (simp only: fst_conv) simp
qed

text \<open>
  C7, amended. After a successful bootstrap, whatever the feedback, \<^verbatim>\<open>main\<close> exits with
  status 0 having written one probe for each turn of the budget, each of them (0,0).
  The probes never move: a target is among them exactly when it is (0,0).
\<close>

theorem main_probes_origin_only:
  assumes "Game_ctor cin = (Inr g, cin1)"
  shows "fst (main cin) = Inr 0 \<and>
    split_lines (snd (snd (main cin))) =
      replicate (nat (sint (TurnsLeft g))) (probe_text \<lparr>X = 0, Y = 0\<rparr>) \<and>
    (probe_text target \<in> set (split_lines (snd (snd (main cin)))) \<longleftrightarrow>
       X target = 0 \<and> Y target = 0)"
proof -
  from Game_ctor_Inr_turns [OF assms] have pos: "0 < nat (sint (TurnsLeft g))"
    by simp
  have lines: "split_lines (snd (snd (main cin))) = replicate (nat (sint (TurnsLeft g))) ''0 0''"
    by (simp add: main_ok [OF assms] split_lines_origin_nf)
  have "probe_text target \<in> set (split_lines (snd (snd (main cin)))) \<longleftrightarrow>
       X target = 0 \<and> Y target = 0"
    by (simp only: lines set_replicate_line [OF pos] probe_text_eq_origin)
  with lines show ?thesis
    by (simp add: main_ok [OF assms] probe_text_origin)
qed

text \<open>The scenario session, with target (6,3).\<close>

theorem main_probes_origin_only_witness:
  "fst (main (scripted [10, 5, 20, 0, 0] [''UNKNOWN'', ''SAME''])) = Inr 0 \<and>
   split_lines (snd (snd (main (scripted [10, 5, 20, 0, 0] [''UNKNOWN'', ''SAME''])))) =
     replicate 20 ''0 0'' \<and>
   probe_text \<lparr>X = 6, Y = 3\<rparr> \<notin>
     set (split_lines (snd (snd (main (scripted [10, 5, 20, 0, 0] [''UNKNOWN'', ''SAME''])))))"
proof -
  have n: "nat (sint (TurnsLeft scenario_game)) = 20"
    by (simp add: scenario_game_def)
  from main_probes_origin_only [OF scenario_bootstrap, of "[''UNKNOWN'', ''SAME'']"
      "\<lparr>X = 6, Y = 3\<rparr>"]
  show ?thesis
    by (simp add: n probe_text_origin probe_text_eq_origin)
qed

text \<open>
  C8, as claimed: the loop executes no turn after the target is found, and running out
  of turns is a reported failure. The strategy returns a point and nothing else, so
  there is no signal to stop at. In a session with a budget of 2 and the target at
  (0,0), the first probe is the target, and a second turn is executed all the same;
  the run then ends with exit status 0 and nothing but the two probes written.
\<close>

theorem loop_stops_when_found_counterexample:
  "fst (main (scripted [10, 5, 2, 0, 0] [''UNKNOWN'', ''SAME''])) = Inr 0 \<and>
   split_lines (snd (snd (main (scripted [10, 5, 2, 0, 0] [''UNKNOWN'', ''SAME''])))) =
     [''0 0'', ''0 0''] \<and>
   probe_text \<lparr>X = 0, Y = 0\<rparr> = ''0 0'' \<and>
   \<not> stops_at (probe_text \<lparr>X = 0, Y = 0\<rparr>)
     (split_lines (snd (snd (main (scripted [10, 5, 2, 0, 0] [''UNKNOWN'', ''SAME''])))))"
proof -
  let ?cin = "scripted [10, 5, 2, 0, 0] [''UNKNOWN'', ''SAME'']"
  let ?g = "\<lparr>House = \<lparr>Width = 10, Height = 5\<rparr>, TurnsLeft = 2,
      Player = \<lparr>Position = \<lparr>X = 0, Y = 0\<rparr>\<rparr>, Strategy = SimpleStrategy\<rparr>"
  have "Game_ctor ?cin = (Inr ?g, scripted [] [''UNKNOWN'', ''SAME''])"
    by (simp add: Game_ctor_ok eval_nat_numeral)
  from main_ok [OF this] have run: "main ?cin =
    (Inr 0, ((after_string ^^ 2) (scripted [] [''UNKNOWN'', ''SAME'']),
             concat (replicate 2 (''0 0'' @ [CHR 0x0A]))))"
    by simp
  have lines: "split_lines (snd (snd (main ?cin))) = replicate 2 ''0 0''"
    by (simp only: run snd_conv split_lines_origin)
  then have lines2: "split_lines (snd (snd (main ?cin))) = [''0 0'', ''0 0'']"
    by (simp add: eval_nat_numeral)
  have "\<not> stops_at ''0 0'' [''0 0'', ''0 0'']"
    by simp
  with run lines2 show ?thesis
    by (simp only: probe_text_origin fst_conv) simp
qed

text \<open>
  C8, amended. The loop tests the turn counter only. After a successful bootstrap it
  executes exactly as many turns as the budget (between 2 and 100), whatever the
  feedback and the probes, and stops when \<open>TurnsLeft\<close> is 0, below the threshold 1;
  \<^verbatim>\<open>main\<close> then returns 0 and nothing was thrown.
\<close>

theorem main_runs_whole_budget:
  assumes "Game_ctor cin = (Inr g, cin1)"
  shows "game_loop g (cin1, []) =
      (Inr (g\<lparr>TurnsLeft := 0\<rparr>),
       ((after_string ^^ nat (sint (TurnsLeft g))) cin1,
        concat (replicate (nat (sint (TurnsLeft g))) (''0 0'' @ [CHR 0x0A])))) \<and>
    \<not> IsRunning (g\<lparr>TurnsLeft := 0\<rparr>) \<and>
    main cin =
      (Inr 0,
       ((after_string ^^ nat (sint (TurnsLeft g))) cin1,
        concat (replicate (nat (sint (TurnsLeft g))) (''0 0'' @ [CHR 0x0A])))) \<and>
    length (split_lines (snd (snd (main cin)))) = nat (sint (TurnsLeft g)) \<and>
    2 \<le> sint (TurnsLeft g) \<and> sint (TurnsLeft g) \<le> 100"
proof -
  from Game_ctor_Inr_turns [OF assms]
  have range: "2 \<le> sint (TurnsLeft g) \<and> sint (TurnsLeft g) \<le> 100" .
  then have "sint (TurnsLeft g) = int (nat (sint (TurnsLeft g)))"
    by simp
  then have "game_loop g (cin1, []) =
      (Inr (g\<lparr>TurnsLeft := 0\<rparr>),
       ((after_string ^^ nat (sint (TurnsLeft g))) cin1,
        [] @ concat (replicate (nat (sint (TurnsLeft g))) (''0 0'' @ [CHR 0x0A]))))"
    by (rule game_loop_run)
  with range show ?thesis
    by (simp add: main_ok [OF assms] split_lines_origin_nf IsRunning_iff)
qed

text \<open>A budget of 2: two lines, two tokens consumed, status 0.\<close>

theorem main_runs_whole_budget_witness:
  "main (scripted [10, 5, 2, 0, 0] [''UNKNOWN'', ''SAME'']) =
     (Inr 0, (scripted [] [], ''0 0'' @ [CHR 0x0A] @ ''0 0'' @ [CHR 0x0A])) \<and>
   length (split_lines (snd (snd (main (scripted [10, 5, 2, 0, 0] [''UNKNOWN'', ''SAME''])))))
     = 2"
proof -
  let ?cin = "scripted [10, 5, 2, 0, 0] [''UNKNOWN'', ''SAME'']"
  let ?g = "\<lparr>House = \<lparr>Width = 10, Height = 5\<rparr>, TurnsLeft = 2,
      Player = \<lparr>Position = \<lparr>X = 0, Y = 0\<rparr>\<rparr>, Strategy = SimpleStrategy\<rparr>"
  have "Game_ctor ?cin = (Inr ?g, scripted [] [''UNKNOWN'', ''SAME''])"
    by (simp add: Game_ctor_ok eval_nat_numeral)
  from main_runs_whole_budget [OF this] show ?thesis
    by (simp add: eval_nat_numeral)
qed

text \<open>
  C9, as claimed: feedback that contradicts what is known, such as "above" after a
  probe whose y is 0, raises an error of its own kind. In a session with a budget of
  2 the first probe is (0,0); the second turn is given \<open>UP\<close>, succeeds, and writes
  \<open>0 0\<close> again; \<^verbatim>\<open>main\<close> exits with status 0.
\<close>

theorem contradicting_feedback_raises_counterexample:
  "fst (NextTurn
     \<lparr>House = \<lparr>Width = 10, Height = 5\<rparr>, TurnsLeft = 1,
      Player = \<lparr>Position = \<lparr>X = 0, Y = 0\<rparr>\<rparr>, Strategy = SimpleStrategy\<rparr>
     (scripted [] [''UP''], ''0 0'' @ [CHR 0x0A])) =
     Inr \<lparr>House = \<lparr>Width = 10, Height = 5\<rparr>, TurnsLeft = 0,
          Player = \<lparr>Position = \<lparr>X = 0, Y = 0\<rparr>\<rparr>, Strategy = SimpleStrategy\<rparr> \<and>
   main (scripted [10, 5, 2, 0, 0] [''UNKNOWN'', ''UP'']) =
     (Inr 0, (scripted [] [], ''0 0'' @ [CHR 0x0A] @ ''0 0'' @ [CHR 0x0A]))"
proof -
  let ?cin = "scripted [10, 5, 2, 0, 0] [''UNKNOWN'', ''UP'']"
  let ?g = "\<lparr>House = \<lparr>Width = 10, Height = 5\<rparr>, TurnsLeft = 2,
      Player = \<lparr>Position = \<lparr>X = 0, Y = 0\<rparr>\<rparr>, Strategy = SimpleStrategy\<rparr>"
  have "Game_ctor ?cin = (Inr ?g, scripted [] [''UNKNOWN'', ''UP''])"
    by (simp add: Game_ctor_ok eval_nat_numeral)
  from main_ok [OF this] have "main ?cin =
     (Inr 0, (scripted [] [], ''0 0'' @ [CHR 0x0A] @ ''0 0'' @ [CHR 0x0A]))"
    by (simp add: eval_nat_numeral)
  then show ?thesis
    by (simp add: NextTurn_running IsRunning_iff)
qed

text \<open>
  C9, amended. The feedback is compared with nothing. For every token that the input
  answers, a turn of a running session succeeds, writes \<open>0 0\<close> and counts down. The
  only error a turn throws is the \<^verbatim>\<open>std::runtime_error\<close> "The game is not running: no
  turns left", on a session that is over; after a successful bootstrap \<^verbatim>\<open>main\<close>
  exits with status 0.
\<close>

theorem NextTurn_never_checks_feedback:
  "(IsRunning g \<longrightarrow>
      NextTurn g (cin, cout) =
        (Inr (g\<lparr>TurnsLeft := TurnsLeft g - 1\<rparr>), (after_string cin, cout @ ''0 0'' @ [CHR 0x0A]))) \<and>
   (NextTurn g io = (Inl e, io') \<longrightarrow>
      \<not> IsRunning g \<and> e = Runtime_error ''The game is not running: no turns left'') \<and>
   (Game_ctor boot = (Inr built, rest) \<longrightarrow> fst (main boot) = Inr 0)"
  by (auto simp: NextTurn_running main_ok dest: NextTurn_Inl)

text \<open>The turn of the counterexample, and the run it belongs to.\<close>

theorem NextTurn_never_checks_feedback_witness:
  "NextTurn
     \<lparr>House = \<lparr>Width = 10, Height = 5\<rparr>, TurnsLeft = 1,
      Player = \<lparr>Position = \<lparr>X = 0, Y = 0\<rparr>\<rparr>, Strategy = SimpleStrategy\<rparr>
     (scripted [] [''UP''], ''0 0'' @ [CHR 0x0A]) =
     (Inr \<lparr>House = \<lparr>Width = 10, Height = 5\<rparr>, TurnsLeft = 0,
           Player = \<lparr>Position = \<lparr>X = 0, Y = 0\<rparr>\<rparr>, Strategy = SimpleStrategy\<rparr>,
      (scripted [] [], ''0 0'' @ [CHR 0x0A] @ ''0 0'' @ [CHR 0x0A])) \<and>
   fst (main (scripted [10, 5, 2, 0, 0] [''UNKNOWN'', ''UP''])) = Inr 0"
proof -
  let ?g1 = "\<lparr>House = \<lparr>Width = 10, Height = 5\<rparr>, TurnsLeft = 1,
      Player = \<lparr>Position = \<lparr>X = 0, Y = 0\<rparr>\<rparr>, Strategy = SimpleStrategy\<rparr>"
  let ?g2 = "\<lparr>House = \<lparr>Width = 10, Height = 5\<rparr>, TurnsLeft = 2,
      Player = \<lparr>Position = \<lparr>X = 0, Y = 0\<rparr>\<rparr>, Strategy = SimpleStrategy\<rparr>"
  have run: "IsRunning ?g1"
    by (simp add: IsRunning_iff)
  have ctor: "Game_ctor (scripted [10, 5, 2, 0, 0] [''UNKNOWN'', ''UP'']) =
      (Inr ?g2, scripted [] [''UNKNOWN'', ''UP''])"
    by (simp add: Game_ctor_ok eval_nat_numeral)
  from run ctor
    NextTurn_never_checks_feedback [where g = ?g1 and cin = "scripted [] [''UP'']"
      and cout = "''0 0'' @ [CHR 0x0A]"
      and boot = "scripted [10, 5, 2, 0, 0] [''UNKNOWN'', ''UP'']" and built = ?g2
      and rest = "scripted [] [''UNKNOWN'', ''UP'']"]
  show ?thesis
    by simp
qed

text \<open>
  C10. The constructor of \<open>Batman\<close> accepts x and y exactly when \<open>0 \<le> x < 10000\<close> and
  \<open>0 \<le> y < 10000\<close>: the bounds are the constants of \<^verbatim>\<open>Building\<close>, not the size of the
  building read before. So at bootstrap, with a valid building and a valid number of
  turns, a start below the maxima but outside the building (x at least the width, or y
  at least the height) is accepted: the game is built with that position and runs.
\<close>

theorem Batman_start_checked_against_maxima_only:
  fixes cin :: istream
  defines "w \<equiv> extract_int cin"
    and "h \<equiv> extract_int (after_int cin)"
    and "t \<equiv> extract_int ((after_int ^^ 2) cin)"
    and "x0 \<equiv> extract_int ((after_int ^^ 3) cin)"
    and "y0 \<equiv> extract_int ((after_int ^^ 4) cin)"
  shows
  "(isl (Batman_ctor x y) \<longleftrightarrow>
      \<not> (0 \<le> sint x \<and> sint x < 10000) \<or> \<not> (0 \<le> sint y \<and> sint y < 10000)) \<and>
   (\<forall>b. Batman_ctor x y = Inr b \<longrightarrow> GetPosition b = \<lparr>X = x, Y = y\<rparr>) \<and>
   ((1 \<le> sint w \<and> sint w \<le> 10000) \<and> (5 \<le> sint h \<and> sint h \<le> 10000) \<and>
    (2 \<le> sint t \<and> sint t \<le> 100) \<and>
    (0 \<le> sint x0 \<and> sint x0 < 10000) \<and> (0 \<le> sint y0 \<and> sint y0 < 10000) \<and>
    (sint w \<le> sint x0 \<or> sint h \<le> sint y0) \<longrightarrow>
      Game_ctor cin =
        (Inr \<lparr>House = \<lparr>Width = w, Height = h\<rparr>, TurnsLeft = t,
              Player = \<lparr>Position = \<lparr>X = x0, Y = y0\<rparr>\<rparr>, Strategy = SimpleStrategy\<rparr>,
         (after_int ^^ 5) cin) \<and>
      fst (main cin) = Inr 0)"
proof (intro conjI allI impI)
  show "isl (Batman_ctor x y) \<longleftrightarrow>
      \<not> (0 \<le> sint x \<and> sint x < 10000) \<or> \<not> (0 \<le> sint y \<and> sint y < 10000)"
    by (rule Batman_ctor_isl)
next
  fix b
  assume b: "Batman_ctor x y = Inr b"
  then have "\<not> isl (Batman_ctor x y)"
    by simp
  then have "Batman_ctor x y = Inr \<lparr>Position = \<lparr>X = x, Y = y\<rparr>\<rparr>"
    by (simp add: Batman_ctor_isl Batman_ctor_ok)
  with b show "GetPosition b = \<lparr>X = x, Y = y\<rparr>"
    by (auto simp: GetPosition_def)
next
  assume ok: "(1 \<le> sint w \<and> sint w \<le> 10000) \<and> (5 \<le> sint h \<and> sint h \<le> 10000) \<and>
    (2 \<le> sint t \<and> sint t \<le> 100) \<and>
    (0 \<le> sint x0 \<and> sint x0 < 10000) \<and> (0 \<le> sint y0 \<and> sint y0 < 10000) \<and>
    (sint w \<le> sint x0 \<or> sint h \<le> sint y0)"
  then show ctor: "Game_ctor cin =
        (Inr \<lparr>House = \<lparr>Width = w, Height = h\<rparr>, TurnsLeft = t,
              Player = \<lparr>Position = \<lparr>X = x0, Y = y0\<rparr>\<rparr>, Strategy = SimpleStrategy\<rparr>,
         (after_int ^^ 5) cin)"
    unfolding w_def h_def t_def x0_def y0_def by (intro Game_ctor_ok) simp_all
  show "fst (main cin) = Inr 0"
    by (simp add: main_ok [OF ctor])
qed

text \<open>In a building of 10 by 5 the start (9999, 9999) is accepted.\<close>

theorem Batman_start_checked_against_maxima_only_witness:
  "\<not> isl (Batman_ctor 0 0) \<and> \<not> isl (Batman_ctor 9999 9999) \<and>
   isl (Batman_ctor 10000 0) \<and> isl (Batman_ctor 0 10000) \<and> isl (Batman_ctor (- 1) 0) \<and>
   fst (Game_ctor (scripted [10, 5, 20, 9999, 9999] [])) =
     Inr \<lparr>House = \<lparr>Width = 10, Height = 5\<rparr>, TurnsLeft = 20,
          Player = \<lparr>Position = \<lparr>X = 9999, Y = 9999\<rparr>\<rparr>, Strategy = SimpleStrategy\<rparr> \<and>
   fst (main (scripted [10, 5, 20, 9999, 9999] [])) = Inr 0"
  using Batman_start_checked_against_maxima_only [of 0 0 "scripted [10, 5, 20, 9999, 9999] []"]
    Batman_start_checked_against_maxima_only [of 9999 9999 "scripted [10, 5, 20, 9999, 9999] []"]
    Batman_start_checked_against_maxima_only [of 10000 0 "scripted [10, 5, 20, 9999, 9999] []"]
    Batman_start_checked_against_maxima_only [of 0 10000 "scripted [10, 5, 20, 9999, 9999] []"]
    Batman_start_checked_against_maxima_only [of "- 1" 0 "scripted [10, 5, 20, 9999, 9999] []"]
  by (simp add: eval_nat_numeral)

end
